theory Spec2Isabelle
  imports Complex_Main
begin

section \<open>Strings\<close>

text \<open>
  A JavaScript string is modelled as a \<^typ>\<open>string\<close>, read as the UTF-8 bytes of the text.
  Every pattern, needle and table key of the program is ASCII, and the program only ever
  compares text with those: a non-ASCII character is a run of bytes above 127, which equals
  no ASCII character, is no word character of a regular expression, and is not changed by
  the case mapping below.
\<close>

definition upper_letters :: string where
  "upper_letters = ''ABCDEFGHIJKLMNOPQRSTUVWXYZ''"

definition lower_letters :: string where
  "lower_letters = ''abcdefghijklmnopqrstuvwxyz''"

definition lower_char :: "char \<Rightarrow> char" where
  "lower_char c = (case map_of (zip upper_letters lower_letters) c of None \<Rightarrow> c | Some l \<Rightarrow> l)"

definition toLowerCase :: "string \<Rightarrow> string" where
  "toLowerCase s = map lower_char s"

fun startsWith :: "string \<Rightarrow> string \<Rightarrow> bool" where
  "startsWith s [] = True"
| "startsWith [] (n # ns) = False"
| "startsWith (c # cs) (n # ns) = (c = n \<and> startsWith cs ns)"

fun js_includes :: "string \<Rightarrow> string \<Rightarrow> bool" where
  "js_includes [] needle = (needle = [])"
| "js_includes (c # cs) needle = (startsWith (c # cs) needle \<or> js_includes cs needle)"

section \<open>Cognitive profile\<close>

text \<open>
  The profile object, flattened: \<open>text.chunking.strategy\<close>, \<open>text.chunking.maxLength\<close>,
  \<open>text.vocabulary.simplificationLevel\<close>, \<open>simplification.useAnalogies\<close>,
  \<open>simplification.summarization\<close>, \<open>visuals.distractionFilter\<close> and the provenance
  fields of \<open>metadata\<close>. Timestamps and the display preferences are never read by the
  functions below and are left out.
\<close>

record cognitive_profile =
  chunking_strategy :: string
  chunking_maxLength :: int
  simplificationLevel :: string
  useAnalogies :: bool
  summarization_defaultState :: string
  summarization_summaryLength :: int
  filter_enabled :: bool
  filter_sensitivity :: string
  metadata_version :: "string option"
  metadata_generatedBy :: "string option"

section \<open>Visual classifier\<close>

record visual_element =
  el_id :: string
  el_type :: string
  semantic_context :: string
  position :: "string option"

record visual_action =
  va_id :: string
  va_action :: string
  va_reasoning :: "string option"

record visual_metadata =
  filterEnabled :: bool
  md_sensitivity :: "string option"
  elementsProcessed :: "nat option"
  actionsHide :: "nat option"
  actionsFade :: "nat option"
  actionsKeep :: "nat option"

record visual_analysis =
  va_status :: string
  visualActions :: "visual_action list"
  va_metadata :: visual_metadata

text \<open>A template literal prints a missing property as \<open>undefined\<close>.\<close>

definition show_position :: "string option \<Rightarrow> string" where
  "show_position p = (case p of None \<Rightarrow> ''undefined'' | Some s \<Rightarrow> s)"

definition reasoningMap :: "visual_element \<Rightarrow> string \<Rightarrow> (string \<times> string) list" where
  "reasoningMap element sensitivity =
    [(''hide'', ''Hidden due to '' @ sensitivity @ '' sensitivity to '' @ semantic_context element),
     (''keep_visible'', ''Kept visible - essential '' @ semantic_context element),
     (''fade_to_20_percent_opacity'',
        ''Faded to reduce visual distraction from '' @ semantic_context element),
     (''fade_to_30_percent_opacity'',
        ''Moderately faded - '' @ semantic_context element @ '' with '' @ sensitivity @ '' sensitivity''),
     (''fade_to_40_percent_opacity'',
        ''Lightly faded - '' @ show_position (position element) @ '' content with '' @ sensitivity
          @ '' sensitivity''),
     (''fade_to_50_percent_opacity'',
        ''Reduced opacity - decorative content with '' @ sensitivity @ '' sensitivity'')]"

definition getActionReasoning :: "visual_element \<Rightarrow> string \<Rightarrow> string \<Rightarrow> string" where
  "getActionReasoning element action sensitivity =
    (case map_of (reasoningMap element sensitivity) action of
       Some r \<Rightarrow> (if r = [] then action @ '' applied to '' @ semantic_context element else r)
     | None \<Rightarrow> action @ '' applied to '' @ semantic_context element)"

text \<open>The \<open>switch\<close> of \<open>analyzeVisuals\<close>, run for one element of the \<open>forEach\<close>.\<close>

definition switch_action :: "string \<Rightarrow> visual_element \<Rightarrow> string" where
  "switch_action sensitivity element =
    (let ctx = semantic_context element in
     if ctx = ''sidebar_advertisement'' \<or> ctx = ''popup_advertisement'' \<or> ctx = ''newsletter_signup''
     then (if sensitivity = ''high'' then ''hide'' else ''fade_to_30_percent_opacity'')
     else if ctx = ''decorative_stock_photo''
     then (if sensitivity = ''high'' then ''fade_to_20_percent_opacity''
           else if sensitivity = ''medium'' then ''fade_to_50_percent_opacity''
           else ''keep_visible'')
     else if ctx = ''main_article_figure'' \<or> ctx = ''educational_content''
     then ''keep_visible''
     else (if sensitivity = ''high'' \<and> position element = Some ''sidebar''
           then ''fade_to_40_percent_opacity'' else ''keep_visible''))"

definition push_action :: "string \<Rightarrow> visual_element \<Rightarrow> visual_action list \<Rightarrow> visual_action list" where
  "push_action sensitivity element acc =
    (let action = switch_action sensitivity element in
     acc @ [\<lparr>va_id = el_id element, va_action = action,
             va_reasoning = Some (getActionReasoning element action sensitivity)\<rparr>])"

definition analyzeVisuals :: "visual_element list \<Rightarrow> cognitive_profile \<Rightarrow> visual_analysis" where
  "analyzeVisuals elements profile =
    (let enabled = filter_enabled profile; sensitivity = filter_sensitivity profile in
     if \<not> enabled then
       \<lparr>va_status = ''success'',
        visualActions =
          map (\<lambda>el. \<lparr>va_id = el_id el, va_action = ''keep_visible'', va_reasoning = None\<rparr>) elements,
        va_metadata = \<lparr>filterEnabled = False, md_sensitivity = None, elementsProcessed = None,
                       actionsHide = None, actionsFade = None, actionsKeep = None\<rparr>\<rparr>
     else
       (let acts = fold (push_action sensitivity) elements [] in
        \<lparr>va_status = ''success'',
         visualActions = acts,
         va_metadata =
           \<lparr>filterEnabled = True, md_sensitivity = Some sensitivity,
            elementsProcessed = Some (length elements),
            actionsHide = Some (length (filter (\<lambda>a. va_action a = ''hide'') acts)),
            actionsFade = Some (length (filter (\<lambda>a. js_includes (va_action a) ''fade'') acts)),
            actionsKeep = Some (length (filter (\<lambda>a. va_action a = ''keep_visible'') acts))\<rparr>\<rparr>))"

section \<open>Profile generation fallback\<close>

record onboarding_answers =
  q1_reading_style :: "string option"
  q2_distractions :: "string option"
  q3_complex_topics :: "string option"

text \<open>\<open>answer?.toLowerCase().includes(needle)\<close>: a missing answer gives \<open>undefined\<close>, which is falsy.\<close>

definition answer_includes :: "string option \<Rightarrow> string \<Rightarrow> bool" where
  "answer_includes answer needle =
    (case answer of None \<Rightarrow> False | Some s \<Rightarrow> js_includes (toLowerCase s) needle)"

definition default_profile :: cognitive_profile where
  "default_profile =
    \<lparr>chunking_strategy = ''sentence_limit'', chunking_maxLength = 4,
     simplificationLevel = ''intermediate'', useAnalogies = False,
     summarization_defaultState = ''expanded'', summarization_summaryLength = 25,
     filter_enabled = False, filter_sensitivity = ''medium'',
     metadata_version = None, metadata_generatedBy = None\<rparr>"

definition generateMockProfile :: "onboarding_answers \<Rightarrow> cognitive_profile" where
  "generateMockProfile answers =
    (let profile = default_profile;
         profile = (if answer_includes (q1_reading_style answers) ''shorter''
                       \<or> answer_includes (q1_reading_style answers) ''2-3 sentences''
                    then profile\<lparr>chunking_maxLength := 3\<rparr> else profile);
         profile = (if answer_includes (q3_complex_topics answers) ''simple''
                       \<or> answer_includes (q3_complex_topics answers) ''basic''
                    then profile\<lparr>simplificationLevel := ''basic''\<rparr> else profile);
         profile = (if answer_includes (q3_complex_topics answers) ''analog''
                       \<or> answer_includes (q3_complex_topics answers) ''example''
                    then profile\<lparr>useAnalogies := True\<rparr> else profile);
         profile = (if answer_includes (q2_distractions answers) ''very distracted''
                       \<or> answer_includes (q2_distractions answers) ''completely derail''
                    then profile\<lparr>filter_enabled := True, filter_sensitivity := ''high''\<rparr>
                    else if answer_includes (q2_distractions answers) ''distract''
                    then profile\<lparr>filter_enabled := True, filter_sensitivity := ''medium''\<rparr>
                    else profile)
     in profile\<lparr>metadata_version := Some ''1.0'',
                metadata_generatedBy := Some ''intelligent-mock-fallback''\<rparr>)"

section \<open>Sentence splitter\<close>

definition is_terminator :: "char \<Rightarrow> bool" where
  "is_terminator c = (c = CHR ''.'' \<or> c = CHR ''!'' \<or> c = CHR ''?'')"

text \<open>
  \<open>text.match(/[^\.!?]+[\.!?]+/g)\<close>: the matches from left to right. A match starts at a
  character that is no terminator, takes the whole run of such characters and then the whole
  run of terminators, of which there must be one. A run that reaches the end of the text
  without a terminator matches nowhere, and the scan is over. No match at all is \<open>null\<close> in
  JavaScript, the empty list here.
\<close>

function sentence_matches :: "string \<Rightarrow> string list" where
  "sentence_matches [] = []"
| "sentence_matches (c # cs) =
    (if is_terminator c then sentence_matches cs
     else
       (let body = takeWhile (\<lambda>x. \<not> is_terminator x) (c # cs);
            rest = dropWhile (\<lambda>x. \<not> is_terminator x) (c # cs);
            marks = takeWhile is_terminator rest
        in if marks = [] then []
           else (body @ marks) # sentence_matches (dropWhile is_terminator rest)))"
  by pat_completeness auto
termination
  by (relation "measure length")
     (auto simp: less_Suc_eq_le intro!: order_trans [OF length_dropWhile_le length_dropWhile_le])

text \<open>
  The white space and line terminators that \<open>String.prototype.trim\<close> removes, in UTF-8:
  tab, line feed, vertical tab, form feed, carriage return, space, U+00A0, U+1680,
  U+2000 to U+200A, U+2028, U+2029, U+202F, U+205F, U+3000 and U+FEFF.
\<close>

definition whitespace :: "string list" where
  "whitespace =
    [[CHR 0x09], [CHR 0x0A], [CHR 0x0B], [CHR 0x0C], [CHR 0x0D], [CHR 0x20],
     [CHR 0xC2, CHR 0xA0], [CHR 0xE1, CHR 0x9A, CHR 0x80],
     [CHR 0xE2, CHR 0x80, CHR 0x80], [CHR 0xE2, CHR 0x80, CHR 0x81],
     [CHR 0xE2, CHR 0x80, CHR 0x82], [CHR 0xE2, CHR 0x80, CHR 0x83],
     [CHR 0xE2, CHR 0x80, CHR 0x84], [CHR 0xE2, CHR 0x80, CHR 0x85],
     [CHR 0xE2, CHR 0x80, CHR 0x86], [CHR 0xE2, CHR 0x80, CHR 0x87],
     [CHR 0xE2, CHR 0x80, CHR 0x88], [CHR 0xE2, CHR 0x80, CHR 0x89],
     [CHR 0xE2, CHR 0x80, CHR 0x8A], [CHR 0xE2, CHR 0x80, CHR 0xA8],
     [CHR 0xE2, CHR 0x80, CHR 0xA9], [CHR 0xE2, CHR 0x80, CHR 0xAF],
     [CHR 0xE2, CHR 0x81, CHR 0x9F], [CHR 0xE3, CHR 0x80, CHR 0x80],
     [CHR 0xEF, CHR 0xBB, CHR 0xBF]]"

text \<open>\<open>strip ws s\<close> removes from the front of \<open>s\<close> every leading occurrence of a string of \<open>ws\<close>.\<close>

function strip :: "string list \<Rightarrow> string \<Rightarrow> string" where
  "strip ws s =
    (case find (\<lambda>w. w \<noteq> [] \<and> startsWith s w) ws of
       None \<Rightarrow> s
     | Some w \<Rightarrow> strip ws (drop (length w) s))"
  by pat_completeness auto
termination
proof (relation "measure (\<lambda>(ws, s). length s)")
  show "wf (measure (\<lambda>(ws, s). length s))"
    by simp
next
  fix ws :: "string list" and s w :: string
  assume "find (\<lambda>w. w \<noteq> [] \<and> startsWith s w) ws = Some w"
  then have w: "w \<noteq> []" and sw: "startsWith s w"
    by (auto simp: find_Some_iff)
  from w sw have "s \<noteq> []"
    by (cases w) auto
  with w show "((ws, drop (length w) s), (ws, s)) \<in> measure (\<lambda>(ws, s). length s)"
    by simp
qed

declare strip.simps [simp del]

definition trim :: "string \<Rightarrow> string" where
  "trim s = rev (strip (map rev whitespace) (rev (strip whitespace s)))"

text \<open>\<open>text.match(...)?.map(s => s.trim()) || [text]\<close>\<close>

definition splitIntoSentences :: "string \<Rightarrow> string list" where
  "splitIntoSentences text =
    (case sentence_matches text of [] \<Rightarrow> [text] | m # ms \<Rightarrow> map trim (m # ms))"



section \<open>Paragraph chunker\<close>

text \<open>\<open>Array.prototype.slice(start, end)\<close> on integers: a negative index counts from the end.\<close>

definition slice :: "'a list \<Rightarrow> int \<Rightarrow> int \<Rightarrow> 'a list" where
  "slice xs start end' =
    (let n = int (length xs);
         k = (if start < 0 then max (n + start) 0 else min start n);
         final = (if end' < 0 then max (n + end') 0 else min end' n)
     in take (nat (final - k)) (drop (nat k) xs))"

text \<open>\<open>Array.prototype.join(sep)\<close> on an array of strings.\<close>

fun join :: "string \<Rightarrow> string list \<Rightarrow> string" where
  "join sep [] = []"
| "join sep [x] = x"
| "join sep (x # y # ys) = x @ sep @ join sep (y # ys)"

definition chunk_html :: "string \<Rightarrow> string" where
  "chunk_html chunk = ''<p class=\"chunked-paragraph\">'' @ chunk @ ''</p>''"

text \<open>
  The \<open>for\<close> loop of \<open>chunkParagraphs\<close>:
  \<open>for (let i = 0; i < sentences.length; i += maxSentences)\<close>, pushing one chunk per round.
  Nothing in the loop bounds the number of rounds, so it is a partial function: \<open>None\<close> is
  a loop that never ends.
\<close>

partial_function (option) chunk_loop ::
  "string list \<Rightarrow> int \<Rightarrow> int \<Rightarrow> string list \<Rightarrow> string list option" where
  "chunk_loop sentences maxSentences i chunks =
    (if i < int (length sentences)
     then chunk_loop sentences maxSentences (i + maxSentences)
            (chunks @ [chunk_html (join '' '' (slice sentences i (i + maxSentences)))])
     else Some chunks)"

declare chunk_loop.simps [code]

text \<open>
  The document that JSDOM parses is seen through \<open>querySelectorAll('p')\<close>: the list of its
  paragraphs in document order, each with its \<open>textContent\<close>. After the pass a paragraph is
  either the element it was, or it has been replaced through \<open>p.outerHTML = chunks.join('\n')\<close>
  by the markup of its chunks.
\<close>

datatype out_unit = Kept string | Replaced string

text \<open>The body of \<open>paragraphs.forEach\<close>; the state is the document so far and \<open>chunksCreated\<close>.\<close>

definition chunk_paragraph ::
  "int \<Rightarrow> string \<Rightarrow> out_unit list \<times> nat \<Rightarrow> (out_unit list \<times> nat) option" where
  "chunk_paragraph maxSentences text st =
    (let sentences = splitIntoSentences text in
     if int (length sentences) > maxSentences then
       (case chunk_loop sentences maxSentences 0 [] of
          None \<Rightarrow> None
        | Some chunks \<Rightarrow> Some (fst st @ [Replaced (join [CHR 0x0A] chunks)], Suc (snd st)))
     else Some (fst st @ [Kept text], snd st))"

fun forEach_paragraph ::
  "int \<Rightarrow> string list \<Rightarrow> out_unit list \<times> nat \<Rightarrow> (out_unit list \<times> nat) option" where
  "forEach_paragraph maxSentences [] st = Some st"
| "forEach_paragraph maxSentences (p # ps) st =
    (case chunk_paragraph maxSentences p st of
       None \<Rightarrow> None
     | Some st' \<Rightarrow> forEach_paragraph maxSentences ps st')"

text \<open>
  JSDOM is a collaborator outside the repository. \<open>parse\<close> is \<open>new JSDOM(content)\<close> followed
  by \<open>querySelectorAll('p')\<close>, which may throw; \<open>fragment\<close> is what the assignment
  \<open>p.outerHTML = html\<close> puts in the place of \<open>p\<close>, read as the \<open>textContent\<close> of its
  paragraphs: the markup is parsed, it is not stored as it is; and \<open>serialize\<close> is
  \<open>document.body.innerHTML\<close> of the document after the pass.
\<close>

datatype error = Error string

record jsdom =
  parse :: "string \<Rightarrow> error + string list"
  fragment :: "string \<Rightarrow> string list"
  serialize :: "out_unit list \<Rightarrow> string"


text \<open>
  Text that an HTML parser reads back as it is written: no \<open><\<close> and no \<open>&\<close>, which start
  markup, no carriage return, which a parser turns into a line feed, and no NUL, which it drops.
\<close>

definition plain :: "string \<Rightarrow> bool" where
  "plain s = list_all (\<lambda>c. c \<notin> set [CHR ''<'', CHR ''&'', CHR 0x0D, CHR 0x00]) s"

record chunk_result =
  cr_content :: string
  chunksCreated :: nat

text \<open>
  \<open>chunkParagraphs(content, maxSentences)\<close>. The result is \<open>None\<close> when the call never
  returns, \<open>Some (Inl e)\<close> when it throws and \<open>Some (Inr r)\<close> when it returns \<open>r\<close>.
\<close>

definition chunkParagraphs :: "jsdom \<Rightarrow> string \<Rightarrow> int \<Rightarrow> (error + chunk_result) option" where
  "chunkParagraphs jd content maxSentences =
    (case parse jd content of
       Inl e \<Rightarrow> Some (Inl e)
     | Inr paragraphs \<Rightarrow>
         (case forEach_paragraph maxSentences paragraphs ([], 0) of
            None \<Rightarrow> None
          | Some (units, n) \<Rightarrow>
              Some (Inr \<lparr>cr_content = (if serialize jd units = [] then content
                                        else serialize jd units),
                         chunksCreated = n\<rparr>)))"

section \<open>Regular expressions of the form \<open>\bkey\b\<close> with the flags \<open>gi\<close>\<close>

text \<open>
  \<open>simplifyVocabulary\<close> and \<open>addAnalogies\<close> build \<open>new RegExp(`\\b${key}\\b`, 'gi')\<close> from
  the keys of their tables, which consist of letters and single spaces. A word character of
  a regular expression is an ASCII letter, a digit or the underscore; \<open>\b\<close> holds between
  two positions of which exactly one is a word character (the outside of the text counts as
  none). With the flag \<open>i\<close> and without the flag \<open>u\<close> an ASCII letter of the pattern matches
  its two ASCII cases only.
\<close>

definition digits :: string where
  "digits = ''0123456789''"

definition is_word_char :: "char \<Rightarrow> bool" where
  "is_word_char c = (c \<in> set (upper_letters @ lower_letters @ digits @ ''_''))"

definition is_word :: "char option \<Rightarrow> bool" where
  "is_word c = (case c of None \<Rightarrow> False | Some x \<Rightarrow> is_word_char x)"

definition word_boundary :: "char option \<Rightarrow> char option \<Rightarrow> bool" where
  "word_boundary left right = (is_word left \<noteq> is_word right)"

definition char_at :: "string \<Rightarrow> nat \<Rightarrow> char option" where
  "char_at s i = (if i < length s then Some (s ! i) else None)"

text \<open>
  \<open>match_here prev key s\<close>: the pattern matches at the front of \<open>s\<close>, where \<open>prev\<close> is the
  character of the text before \<open>s\<close>, if there is one.
\<close>

definition match_here :: "char option \<Rightarrow> string \<Rightarrow> string \<Rightarrow> bool" where
  "match_here prev key s =
    (length key \<le> length s
     \<and> word_boundary prev (char_at s 0)
     \<and> map lower_char (take (length key) s) = map lower_char key
     \<and> word_boundary (if key = [] then prev else char_at s (length key - 1))
                      (char_at s (length key)))"

text \<open>\<open>regex.test(s)\<close> on a fresh regular expression: is there a match anywhere in \<open>s\<close>?\<close>

fun test_from :: "char option \<Rightarrow> string \<Rightarrow> string \<Rightarrow> bool" where
  "test_from prev key [] = match_here prev key []"
| "test_from prev key (c # cs) = (match_here prev key (c # cs) \<or> test_from (Some c) key cs)"

definition regex_test :: "string \<Rightarrow> string \<Rightarrow> bool" where
  "regex_test key s = test_from None key s"

text \<open>
  \<open>s.replace(regex, replacement)\<close> with the flag \<open>g\<close>: every match, found from left to
  right, is replaced, and the search goes on behind the match. The replacements of the
  program hold no \<open>$\<close>, so they are inserted as they are. The keys are not empty; for an
  empty key nothing is replaced here.
\<close>

function replace_from :: "char option \<Rightarrow> string \<Rightarrow> string \<Rightarrow> string \<Rightarrow> string" where
  "replace_from prev key replacement [] = []"
| "replace_from prev key replacement (c # cs) =
    (if key \<noteq> [] \<and> match_here prev key (c # cs)
     then replacement
          @ replace_from (char_at (c # cs) (length key - 1)) key replacement
              (drop (length key) (c # cs))
     else c # replace_from (Some c) key replacement cs)"
  by pat_completeness auto
termination
  by (relation "measure (\<lambda>(prev, key, replacement, s). length s)") auto

definition replace :: "string \<Rightarrow> string \<Rightarrow> string \<Rightarrow> string" where
  "replace key replacement s = replace_from None key replacement s"

section \<open>Vocabulary simplifier\<close>

text \<open>\<open>vocabularyMappings\<close> of \<open>sampleData.js\<close>; \<open>Object.entries\<close> lists a table in this order.\<close>

definition vocabulary_basic :: "(string \<times> string) list" where
  "vocabulary_basic =
    [(''ubiquitous'', ''everywhere''),
     (''proliferation'', ''spread''),
     (''pedagogical'', ''teaching''),
     (''paradigms'', ''methods''),
     (''necessitating'', ''requiring''),
     (''methodologies'', ''ways''),
     (''accommodate'', ''fit''),
     (''cognitive'', ''thinking''),
     (''frameworks'', ''structures''),
     (''leverage'', ''use''),
     (''emergent'', ''new''),
     (''ecosystems'', ''systems''),
     (''fundamental'', ''basic''),
     (''subatomic'', ''very tiny''),
     (''unprecedented'', ''never seen before''),
     (''epoch'', ''time period''),
     (''encapsulates'', ''shows''),
     (''antiquity'', ''ancient times''),
     (''epitomized'', ''showed perfectly''),
     (''intricate'', ''complex''),
     (''whereby'', ''where''),
     (''biochemical'', ''chemical in living things''),
     (''typically'', ''usually''),
     (''photophosphorylation'', ''light-powered chemical process'')]"

definition vocabulary_intermediate :: "(string \<times> string) list" where
  "vocabulary_intermediate =
    [(''ubiquitous'', ''widespread''),
     (''proliferation'', ''growth''),
     (''pedagogical'', ''educational''),
     (''paradigms'', ''approaches''),
     (''methodologies'', ''techniques''),
     (''cognitive'', ''mental''),
     (''leverage'', ''utilize''),
     (''emergent'', ''emerging''),
     (''fundamental'', ''essential''),
     (''unprecedented'', ''extraordinary''),
     (''encapsulates'', ''represents''),
     (''epitomized'', ''represented''),
     (''intricate'', ''detailed''),
     (''biochemical'', ''biological chemical'')]"

text \<open>\<open>vocabularyMappings[level] || {}\<close>: a level without a table has no entries.\<close>

definition vocabularyMappings :: "string \<Rightarrow> (string \<times> string) list" where
  "vocabularyMappings level =
    (if level = ''basic'' then vocabulary_basic
     else if level = ''intermediate'' then vocabulary_intermediate
     else [])"

definition simplified_span :: "string \<Rightarrow> string \<Rightarrow> string" where
  "simplified_span complex simple =
    ''<span class=\"simplified-word\" data-original=\"'' @ complex @ ''\" title=\"Original: ''
      @ complex @ ''\">'' @ simple @ ''</span>''"

text \<open>The arrow of the log entry is U+2192, in UTF-8.\<close>

definition replacement_entry :: "string \<Rightarrow> string \<Rightarrow> string" where
  "replacement_entry complex simple =
    ''\"'' @ complex @ ''\" '' @ [CHR 0xE2, CHR 0x86, CHR 0x92] @ '' \"'' @ simple @ ''\"''"

text \<open>The callback of \<open>Object.entries(mappings).forEach\<close>, on the content and the log so far.\<close>

definition simplify_entry :: "string \<times> string \<Rightarrow> string \<times> string list \<Rightarrow> string \<times> string list" where
  "simplify_entry entry st =
    (let complex = fst entry; simple = snd entry;
         simplifiedContent = fst st; replacements = snd st
     in if regex_test complex simplifiedContent
        then (replace complex (simplified_span complex simple) simplifiedContent,
              replacements @ [replacement_entry complex simple])
        else (simplifiedContent, replacements))"

definition simplifyVocabulary :: "string \<Rightarrow> string \<Rightarrow> string \<times> string list" where
  "simplifyVocabulary content level = fold simplify_entry (vocabularyMappings level) (content, [])"

section \<open>Analogy annotator\<close>

definition analogyMap :: "(string \<times> string) list" where
  "analogyMap =
    [(''quantum mechanics'',
      ''Think of quantum mechanics like a coin that spins in the air - until it lands, it's both heads and tails at the same time.''),
     (''photosynthesis'',
      ''Photosynthesis is like a plant's kitchen where sunlight is the energy source to cook sugar from air and water.''),
     (''Renaissance'',
      ''The Renaissance was like Europe waking up from a long sleep and rediscovering the wisdom of ancient Greece and Rome.''),
     (''biochemical process'',
      ''A biochemical process is like a recipe that living things follow to make the chemicals they need.''),
     (''cognitive frameworks'',
      ''Cognitive frameworks are like different colored glasses - each person sees and understands the world through their own unique lens.'')]"

text \<open>The sign of the tooltip is U+1F4A1, in UTF-8.\<close>

definition analogy_marker :: "string \<Rightarrow> string \<Rightarrow> string" where
  "analogy_marker concept analogy =
    concept @ '' <span class=\"analogy-tooltip\" title=\"'' @ analogy @ ''\">''
      @ [CHR 0xF0, CHR 0x9F, CHR 0x92, CHR 0xA1] @ ''</span>''"

definition analogy_entry :: "string \<Rightarrow> string" where
  "analogy_entry concept = ''Added analogy for \"'' @ concept @ ''\"''"

definition annotate_entry :: "string \<times> string \<Rightarrow> string \<times> string list \<Rightarrow> string \<times> string list" where
  "annotate_entry entry st =
    (let concept = fst entry; analogy = snd entry;
         enhancedContent = fst st; analogies = snd st
     in if regex_test concept enhancedContent
        then (replace concept (analogy_marker concept analogy) enhancedContent,
              analogies @ [analogy_entry concept])
        else (enhancedContent, analogies))"

definition addAnalogies :: "string \<Rightarrow> string \<times> string list" where
  "addAnalogies content = fold annotate_entry analogyMap (content, [])"

section \<open>Transformation orchestrator\<close>

text \<open>The decimal digits of a number, as a template literal prints it.\<close>

fun show_nat :: "nat \<Rightarrow> string" where
  "show_nat n = (if n < 10 then [digits ! n] else show_nat (n div 10) @ [digits ! (n mod 10)])"

text \<open>
  \<open>s.length\<close> counts UTF-16 code units: one for every character of up to three bytes in
  UTF-8, two for a character of four bytes.
\<close>

definition js_length :: "string \<Rightarrow> nat" where
  "js_length s =
    length (filter (\<lambda>c. \<not> (128 \<le> (of_char c :: nat) \<and> (of_char c :: nat) < 192)) s)
    + length (filter (\<lambda>c. 240 \<le> (of_char c :: nat)) s)"

fun message :: "error \<Rightarrow> string" where
  "message (Error m) = m"

record transform_metadata =
  originalLength :: nat
  transformedLength :: nat
  transformations :: "string list"
  md_chunkingMaxLength :: int
  md_vocabularyLevel :: string
  md_analogiesEnabled :: bool

record transform_result =
  tr_status :: string
  tr_error :: "string option"
  transformedContent :: string
  tr_metadata :: "transform_metadata option"

text \<open>
  The body of the \<open>try\<close> of \<open>transformText\<close>: the three steps in their order. It gives
  \<open>None\<close> when a step never returns, \<open>Some (Inl e)\<close> when a step throws \<open>e\<close>, and otherwise
  the transformed content with the log. The time stamps are left out.
\<close>

definition transform_steps ::
  "jsdom \<Rightarrow> string \<Rightarrow> cognitive_profile \<Rightarrow> (error + string \<times> string list) option" where
  "transform_steps jd content profile =
    (let st1 = (if simplificationLevel profile \<noteq> ''none''
                then simplifyVocabulary content (simplificationLevel profile)
                else (content, []));
         st2 = (if chunking_strategy profile = ''sentence_limit''
                then (case chunkParagraphs jd (fst st1) (chunking_maxLength profile) of
                        None \<Rightarrow> None
                      | Some (Inl e) \<Rightarrow> Some (Inl e)
                      | Some (Inr r) \<Rightarrow>
                          Some (Inr (cr_content r,
                                     snd st1 @ [''Chunked '' @ show_nat (chunksCreated r)
                                                 @ '' paragraphs''])))
                else Some (Inr st1))
     in case st2 of
          None \<Rightarrow> None
        | Some (Inl e) \<Rightarrow> Some (Inl e)
        | Some (Inr st) \<Rightarrow>
            (if useAnalogies profile
             then Some (Inr (fst (addAnalogies (fst st)), snd st @ snd (addAnalogies (fst st))))
             else Some (Inr st)))"

definition transformText ::
  "jsdom \<Rightarrow> string \<Rightarrow> cognitive_profile \<Rightarrow> transform_result option" where
  "transformText jd content profile =
    (case transform_steps jd content profile of
       None \<Rightarrow> None
     | Some (Inl e) \<Rightarrow>
         Some \<lparr>tr_status = ''error'', tr_error = Some (message e),
               transformedContent = content, tr_metadata = None\<rparr>
     | Some (Inr (transformed, transformationLog)) \<Rightarrow>
         Some \<lparr>tr_status = ''success'', tr_error = None,
               transformedContent = transformed,
               tr_metadata =
                 Some \<lparr>originalLength = js_length content,
                       transformedLength = js_length transformed,
                       transformations = transformationLog,
                       md_chunkingMaxLength = chunking_maxLength profile,
                       md_vocabularyLevel = simplificationLevel profile,
                       md_analogiesEnabled = useAnalogies profile\<rparr>\<rparr>)"

section \<open>Sample inputs\<close>

text \<open>\<open>sampleVisualElements\<close> of \<open>sampleData.js\<close>, and profiles and answers to run the functions on.\<close>

definition sampleVisualElements :: "visual_element list" where
  "sampleVisualElements =
    [\<lparr>el_id = ''main-article-img1'', el_type = ''image'',
      semantic_context = ''main_article_figure'', position = Some ''inline''\<rparr>,
     \<lparr>el_id = ''sidebar-ad-1'', el_type = ''advertisement'',
      semantic_context = ''sidebar_advertisement'', position = Some ''sidebar''\<rparr>,
     \<lparr>el_id = ''decorative-stock-1'', el_type = ''image'',
      semantic_context = ''decorative_stock_photo'', position = Some ''header''\<rparr>,
     \<lparr>el_id = ''video-embed-1'', el_type = ''video'',
      semantic_context = ''educational_content'', position = Some ''inline''\<rparr>,
     \<lparr>el_id = ''popup-newsletter'', el_type = ''iframe'',
      semantic_context = ''newsletter_signup'', position = Some ''overlay''\<rparr>]"

text \<open>What \<open>extractVisualElements\<close> builds for the first \<open>aside\<close> of a page.\<close>

definition asideElement :: visual_element where
  "asideElement = \<lparr>el_id = ''aside-0'', el_type = ''aside'',
     semantic_context = ''sidebar_content'', position = Some ''sidebar''\<rparr>"

text \<open>
  What \<open>extractVisualElements\<close> builds for a first image that stands in an \<open>article\<close> inside
  an \<open>aside\<close>: \<open>classifyImageContext\<close> gives \<open>main_article_figure\<close> and \<open>getElementPosition\<close>
  gives \<open>sidebar\<close>.
\<close>

definition sidebar_figure :: visual_element where
  "sidebar_figure = \<lparr>el_id = ''img-0'', el_type = ''image'',
     semantic_context = ''main_article_figure'', position = Some ''sidebar''\<rparr>"

definition filter_profile :: "bool \<Rightarrow> string \<Rightarrow> cognitive_profile" where
  "filter_profile en sens = default_profile\<lparr>filter_enabled := en, filter_sensitivity := sens\<rparr>"

definition derail_answers :: onboarding_answers where
  "derail_answers = \<lparr>q1_reading_style = None,
     q2_distractions = Some ''Pop-ups completely derail me'', q3_complex_topics = None\<rparr>"

definition distracted_answers :: onboarding_answers where
  "distracted_answers = \<lparr>q1_reading_style = None,
     q2_distractions = Some ''I get Very Distracted by ads'', q3_complex_topics = None\<rparr>"

text \<open>
  A stand-in for JSDOM on a document whose body holds the paragraphs \<open>ps\<close>, whatever the
  content, each a \<open>p\<close> element with plain text. It reads the markup of chunks back by
  their text up to the next tag, and serializes text with the four escapes of HTML.
\<close>

definition chunk_open :: string where
  "chunk_open = ''<p class=\"chunked-paragraph\">''"

function read_chunks :: "string \<Rightarrow> string list" where
  "read_chunks [] = []"
| "read_chunks (c # cs) =
    (if startsWith (c # cs) chunk_open
     then takeWhile (\<lambda>x. x \<noteq> CHR ''<'') (drop (length chunk_open) (c # cs))
          # read_chunks (drop (length ''</p>'')
                          (dropWhile (\<lambda>x. x \<noteq> CHR ''<'') (drop (length chunk_open) (c # cs))))
     else read_chunks cs)"
  by pat_completeness auto
termination
proof (relation "measure length")
  show "wf (measure length)"
    by simp
next
  fix c :: char and cs :: string
  have "length (drop (length ''</p>'')
                  (dropWhile (\<lambda>x. x \<noteq> CHR ''<'') (drop (length chunk_open) (c # cs))))
          \<le> length (dropWhile (\<lambda>x. x \<noteq> CHR ''<'') (drop (length chunk_open) (c # cs)))"
    by simp
  also have "\<dots> \<le> length (drop (length chunk_open) (c # cs))"
    by (rule length_dropWhile_le)
  also have "\<dots> < length (c # cs)"
    by (simp add: chunk_open_def)
  finally show "(drop (length ''</p>'')
                  (dropWhile (\<lambda>x. x \<noteq> CHR ''<'') (drop (length chunk_open) (c # cs))), c # cs)
                \<in> measure length"
    by simp
next
  fix c :: char and cs :: string
  show "(cs, c # cs) \<in> measure length"
    by simp
qed

fun escape_text :: "string \<Rightarrow> string" where
  "escape_text [] = []"
| "escape_text (c # cs) =
    (if c = CHR ''&'' then ''&amp;'' @ escape_text cs
     else if c = CHR ''<'' then ''&lt;'' @ escape_text cs
     else if c = CHR ''>'' then ''&gt;'' @ escape_text cs
     else if c = CHR 0xC2 \<and> cs \<noteq> [] \<and> hd cs = CHR 0xA0 then ''&nbsp;'' @ escape_text (tl cs)
     else c # escape_text cs)"

fun unit_html :: "out_unit \<Rightarrow> string" where
  "unit_html (Kept t) = ''<p>'' @ escape_text t @ ''</p>''"
| "unit_html (Replaced h) = join [CHR 0x0A] (map (\<lambda>t. chunk_html (escape_text t)) (read_chunks h))"

definition paragraphs_dom :: "string list \<Rightarrow> jsdom" where
  "paragraphs_dom ps =
    \<lparr>parse = (\<lambda>content. Inr ps), fragment = read_chunks,
     serialize = (\<lambda>units. concat (map unit_html units))\<rparr>"


definition seven_sentences :: string where
  "seven_sentences = ''One. Two! Three? Four. Five. Six. Seven.''"


section \<open>Properties of the visual classifier\<close>

lemma fold_push_action:
  "fold (push_action s) els acc =
     acc @ map (\<lambda>el. \<lparr>va_id = el_id el, va_action = switch_action s el,
                       va_reasoning = Some (getActionReasoning el (switch_action s el) s)\<rparr>) els"
  by (induction els arbitrary: acc) (simp_all add: push_action_def Let_def)

lemma visualActions_enabled:
  "filter_enabled p \<Longrightarrow>
   visualActions (analyzeVisuals els p) =
     map (\<lambda>el. \<lparr>va_id = el_id el, va_action = switch_action (filter_sensitivity p) el,
                 va_reasoning = Some (getActionReasoning el (switch_action (filter_sensitivity p) el)
                                        (filter_sensitivity p))\<rparr>) els"
  by (simp add: analyzeVisuals_def Let_def fold_push_action)

lemma visualActions_disabled:
  "\<not> filter_enabled p \<Longrightarrow>
   visualActions (analyzeVisuals els p) =
     map (\<lambda>el. \<lparr>va_id = el_id el, va_action = ''keep_visible'', va_reasoning = None\<rparr>) els"
  by (simp add: analyzeVisuals_def Let_def)

lemma filter_profile_simps [simp]:
  "filter_enabled (filter_profile en sens) = en"
  "filter_sensitivity (filter_profile en sens) = sens"
  by (simp_all add: filter_profile_def default_profile_def)

text \<open>
  C7: when \<open>distractionFilter.enabled\<close> is false, every action returned by
  \<open>analyzeVisuals\<close> is \<open>keep_visible\<close>, for every list of elements.
\<close>

theorem C7_filter_disabled_keeps_all:
  "\<not> filter_enabled p \<Longrightarrow> \<forall>a \<in> set (visualActions (analyzeVisuals els p)). va_action a = ''keep_visible''"
  by (auto simp: visualActions_disabled)

theorem C7_filter_disabled_keeps_all_witness:
  "\<not> filter_enabled (filter_profile False ''high'') \<and>
   map va_action (visualActions (analyzeVisuals sampleVisualElements (filter_profile False ''high'')))
     = [''keep_visible'', ''keep_visible'', ''keep_visible'', ''keep_visible'', ''keep_visible'']"
  using C7_filter_disabled_keeps_all [of "filter_profile False ''high''" sampleVisualElements]
  by (simp add: visualActions_disabled sampleVisualElements_def)

text \<open>
  C1: an element whose semantic context is \<open>main_article_figure\<close> or
  \<open>educational_content\<close> gets the action \<open>keep_visible\<close> from \<open>analyzeVisuals\<close>, for
  every profile: whatever the sensitivity, and whether the filter is enabled or not. The
  action at index \<open>i\<close> of the result is the one of the element at index \<open>i\<close>.
\<close>

theorem C1_essential_content_kept:
  assumes "i < length els"
    and "semantic_context (els ! i) = ''main_article_figure'' \<or> semantic_context (els ! i) = ''educational_content''"
  shows "length (visualActions (analyzeVisuals els p)) = length els
     \<and> va_id (visualActions (analyzeVisuals els p) ! i) = el_id (els ! i)
     \<and> va_action (visualActions (analyzeVisuals els p) ! i) = ''keep_visible''"
proof (cases "filter_enabled p")
  case True
  with assms show ?thesis by (auto simp: visualActions_enabled switch_action_def)
next
  case False
  with assms show ?thesis by (simp add: visualActions_disabled)
qed

theorem C1_essential_content_kept_witness:
  "(3::nat) < length sampleVisualElements
   \<and> semantic_context (sampleVisualElements ! 3) = ''educational_content''
   \<and> va_id (visualActions (analyzeVisuals sampleVisualElements (filter_profile True ''high'')) ! 3) = ''video-embed-1''
   \<and> va_action (visualActions (analyzeVisuals sampleVisualElements (filter_profile True ''high'')) ! 3) = ''keep_visible''"
  using C1_essential_content_kept [of 3 sampleVisualElements "filter_profile True ''high''"]
  by (simp add: sampleVisualElements_def)

text \<open>
  C6, as stated, fails: the claim names four contexts and gives every other context
  \<open>fade_to_40_percent_opacity\<close> at sensitivity high in the sidebar. The contexts
  \<open>main_article_figure\<close> and \<open>educational_content\<close> are other contexts, and they are kept
  visible there too: the \<open>switch\<close> has a case of its own for them.
\<close>

theorem C6_sidebar_figure_is_kept:
  "filter_enabled (filter_profile True ''high'')
   \<and> filter_sensitivity (filter_profile True ''high'') = ''high''
   \<and> semantic_context sidebar_figure
       \<notin> {''sidebar_advertisement'', ''popup_advertisement'', ''newsletter_signup'',
          ''decorative_stock_photo''}
   \<and> position sidebar_figure = Some ''sidebar''
   \<and> map va_action (visualActions (analyzeVisuals [sidebar_figure] (filter_profile True ''high'')))
       = [''keep_visible'']
   \<and> ''keep_visible'' \<noteq> ''fade_to_40_percent_opacity''"
  by (simp add: visualActions_enabled sidebar_figure_def switch_action_def)

text \<open>
  C6, amended: with the filter enabled, the action of the element at index \<open>i\<close> follows the
  decision table. Advertisements, pop-ups and newsletter sign-ups: \<open>hide\<close> at sensitivity
  high, \<open>fade_to_30_percent_opacity\<close> at low or medium. Decorative stock photos: fade to 20
  percent at high, to 50 percent at medium, \<open>keep_visible\<close> at low. Main article figures and
  educational content: \<open>keep_visible\<close> at every sensitivity and position. Any context other
  than these six: \<open>fade_to_40_percent_opacity\<close> when the sensitivity is high and the
  position is sidebar, \<open>keep_visible\<close> otherwise.
\<close>

theorem C6_decision_table:
  assumes en: "filter_enabled p"
    and i: "i < length els"
  shows "let ctx = semantic_context (els ! i);
             sens = filter_sensitivity p;
             act = va_action (visualActions (analyzeVisuals els p) ! i)
         in (ctx \<in> {''sidebar_advertisement'', ''popup_advertisement'', ''newsletter_signup''} \<longrightarrow>
               (sens = ''high'' \<longrightarrow> act = ''hide'') \<and>
               (sens = ''low'' \<or> sens = ''medium'' \<longrightarrow> act = ''fade_to_30_percent_opacity'')) \<and>
            (ctx = ''decorative_stock_photo'' \<longrightarrow>
               (sens = ''high'' \<longrightarrow> act = ''fade_to_20_percent_opacity'') \<and>
               (sens = ''medium'' \<longrightarrow> act = ''fade_to_50_percent_opacity'') \<and>
               (sens = ''low'' \<longrightarrow> act = ''keep_visible'')) \<and>
            (ctx \<in> {''main_article_figure'', ''educational_content''} \<longrightarrow> act = ''keep_visible'') \<and>
            (ctx \<notin> {''sidebar_advertisement'', ''popup_advertisement'', ''newsletter_signup'',
                      ''decorative_stock_photo'', ''main_article_figure'', ''educational_content''} \<longrightarrow>
               (sens = ''high'' \<and> position (els ! i) = Some ''sidebar''
                  \<longrightarrow> act = ''fade_to_40_percent_opacity'') \<and>
               (\<not> (sens = ''high'' \<and> position (els ! i) = Some ''sidebar'')
                  \<longrightarrow> act = ''keep_visible''))"
  using assms by (simp add: visualActions_enabled switch_action_def Let_def)

theorem C6_decision_table_witness:
  "filter_enabled (filter_profile True ''high'')
   \<and> (5::nat) < length (sampleVisualElements @ [asideElement])
   \<and> semantic_context ((sampleVisualElements @ [asideElement]) ! 5) = ''sidebar_content''
   \<and> position ((sampleVisualElements @ [asideElement]) ! 5) = Some ''sidebar''
   \<and> filter_sensitivity (filter_profile True ''high'') = ''high''
   \<and> va_action (visualActions (analyzeVisuals (sampleVisualElements @ [asideElement])
                                 (filter_profile True ''high'')) ! 5) = ''fade_to_40_percent_opacity''"
  using C6_decision_table [of "filter_profile True ''high''" 5 "sampleVisualElements @ [asideElement]"]
  by (simp add: sampleVisualElements_def asideElement_def Let_def)

text \<open>The whole table on the sample elements and an \<open>aside\<close>, at each sensitivity.\<close>

lemma sample_actions_high:
  "map va_action (visualActions (analyzeVisuals (sampleVisualElements @ [asideElement])
                                  (filter_profile True ''high'')))
   = [''keep_visible'', ''hide'', ''fade_to_20_percent_opacity'', ''keep_visible'', ''hide'',
      ''fade_to_40_percent_opacity'']"
  by (simp add: visualActions_enabled sampleVisualElements_def asideElement_def switch_action_def)

lemma sample_actions_medium:
  "map va_action (visualActions (analyzeVisuals (sampleVisualElements @ [asideElement])
                                  (filter_profile True ''medium'')))
   = [''keep_visible'', ''fade_to_30_percent_opacity'', ''fade_to_50_percent_opacity'',
      ''keep_visible'', ''fade_to_30_percent_opacity'', ''keep_visible'']"
  by (simp add: visualActions_enabled sampleVisualElements_def asideElement_def switch_action_def)

lemma sample_actions_low:
  "map va_action (visualActions (analyzeVisuals (sampleVisualElements @ [asideElement])
                                  (filter_profile True ''low'')))
   = [''keep_visible'', ''fade_to_30_percent_opacity'', ''keep_visible'',
      ''keep_visible'', ''fade_to_30_percent_opacity'', ''keep_visible'']"
  by (simp add: visualActions_enabled sampleVisualElements_def asideElement_def switch_action_def)

text \<open>
  C8, as stated, fails: with the filter disabled the returned actions are built by the
  short-circuit branch as \<open>{id, action}\<close> and carry no reasoning.
\<close>

theorem C8_no_reasoning_when_disabled:
  "\<not> filter_enabled (filter_profile False ''high'') \<and>
   map va_reasoning (visualActions (analyzeVisuals sampleVisualElements (filter_profile False ''high'')))
     = [None, None, None, None, None]"
  by (simp add: visualActions_disabled sampleVisualElements_def)

text \<open>
  C8, amended: every returned action carries the id of its element and one of the six
  actions; it carries a (non-empty) reasoning string when the filter is enabled, and no
  reasoning when the filter is disabled.
\<close>

theorem C8_reasoning_iff_enabled:
  "map va_id (visualActions (analyzeVisuals els p)) = map el_id els \<and>
   (\<forall>a \<in> set (visualActions (analyzeVisuals els p)).
      va_action a \<in> {''keep_visible'', ''hide'', ''fade_to_20_percent_opacity'',
         ''fade_to_30_percent_opacity'', ''fade_to_40_percent_opacity'',
         ''fade_to_50_percent_opacity''} \<and>
      (if filter_enabled p then \<exists>r. va_reasoning a = Some r \<and> r \<noteq> []
       else va_reasoning a = None))"
proof (cases "filter_enabled p")
  case True
  have r: "getActionReasoning el (switch_action s el) s \<noteq> []" for el s
    by (simp add: getActionReasoning_def reasoningMap_def switch_action_def Let_def)
  have a: "switch_action s el \<in> {''keep_visible'', ''hide'', ''fade_to_20_percent_opacity'',
         ''fade_to_30_percent_opacity'', ''fade_to_40_percent_opacity'',
         ''fade_to_50_percent_opacity''}" for el s
    by (simp add: switch_action_def Let_def)
  from True show ?thesis
    using r a by (auto simp: visualActions_enabled comp_def)
next
  case False
  then show ?thesis by (auto simp: visualActions_disabled comp_def)
qed

theorem C8_reasoning_iff_enabled_witness:
  "filter_enabled (filter_profile True ''high'')
   \<and> map va_id (visualActions (analyzeVisuals sampleVisualElements (filter_profile True ''high'')))
       = [''main-article-img1'', ''sidebar-ad-1'', ''decorative-stock-1'', ''video-embed-1'',
          ''popup-newsletter'']
   \<and> map va_reasoning (visualActions (analyzeVisuals sampleVisualElements (filter_profile True ''high'')))
       = [Some ''Kept visible - essential main_article_figure'',
          Some ''Hidden due to high sensitivity to sidebar_advertisement'',
          Some ''Faded to reduce visual distraction from decorative_stock_photo'',
          Some ''Kept visible - essential educational_content'',
          Some ''Hidden due to high sensitivity to newsletter_signup'']"
  using C8_reasoning_iff_enabled [of sampleVisualElements "filter_profile True ''high''"]
  by (simp add: visualActions_enabled sampleVisualElements_def switch_action_def
      getActionReasoning_def reasoningMap_def)

lemma sample_reasoning_high:
  "map va_reasoning (visualActions (analyzeVisuals (sampleVisualElements @ [asideElement])
                                     (filter_profile True ''high'')))
   = [Some ''Kept visible - essential main_article_figure'',
      Some ''Hidden due to high sensitivity to sidebar_advertisement'',
      Some ''Faded to reduce visual distraction from decorative_stock_photo'',
      Some ''Kept visible - essential educational_content'',
      Some ''Hidden due to high sensitivity to newsletter_signup'',
      Some ''Lightly faded - sidebar content with high sensitivity'']"
  by (simp add: visualActions_enabled sampleVisualElements_def asideElement_def switch_action_def
      getActionReasoning_def reasoningMap_def show_position_def)

section \<open>Properties of the profile generation fallback\<close>

lemma answer_includes_eval:
  "answer_includes (Some s) n = js_includes (map lower_char s) n"
  "answer_includes None n = False"
  by (simp_all add: answer_includes_def toLowerCase_def)

lemma lower_char_eval:
  "lower_char c =
     (case map_of (zip ''ABCDEFGHIJKLMNOPQRSTUVWXYZ'' ''abcdefghijklmnopqrstuvwxyz'') c of
        None \<Rightarrow> c | Some l \<Rightarrow> l)"
  by (simp add: lower_char_def upper_letters_def lower_letters_def)

text \<open>
  C10, as stated, fails: an answer with the phrase \<open>completely derail\<close> holds neither
  \<open>very distracted\<close> nor \<open>distract\<close>, so the claim's last case promises the default
  (disabled, medium); the generator enables the filter at sensitivity high.
\<close>

theorem C10_completely_derail_is_high:
  "\<not> answer_includes (q2_distractions derail_answers) ''very distracted''
   \<and> \<not> answer_includes (q2_distractions derail_answers) ''distract''
   \<and> filter_enabled (generateMockProfile derail_answers)
   \<and> filter_sensitivity (generateMockProfile derail_answers) = ''high''"
  by (simp add: derail_answers_def generateMockProfile_def answer_includes_eval lower_char_eval
      default_profile_def Let_def)

text \<open>
  C10, amended: if the distraction answer contains \<open>very distracted\<close> or
  \<open>completely derail\<close> (case-insensitively), the generated profile has the filter enabled at
  sensitivity high; if it contains \<open>distract\<close> and neither of those two phrases, enabled at
  medium; otherwise (also when the answer is missing) the filter stays disabled at medium.
\<close>

theorem C10_distraction_tiers:
  "let q2 = q2_distractions answers; p = generateMockProfile answers in
   (answer_includes q2 ''very distracted'' \<or> answer_includes q2 ''completely derail'' \<longrightarrow>
      filter_enabled p \<and> filter_sensitivity p = ''high'') \<and>
   (answer_includes q2 ''distract'' \<and> \<not> answer_includes q2 ''very distracted''
      \<and> \<not> answer_includes q2 ''completely derail'' \<longrightarrow>
      filter_enabled p \<and> filter_sensitivity p = ''medium'') \<and>
   (\<not> answer_includes q2 ''distract'' \<and> \<not> answer_includes q2 ''very distracted''
      \<and> \<not> answer_includes q2 ''completely derail'' \<longrightarrow>
      \<not> filter_enabled p \<and> filter_sensitivity p = ''medium'')"
  by (simp add: generateMockProfile_def default_profile_def Let_def)

theorem C10_distraction_tiers_witness:
  "answer_includes (q2_distractions distracted_answers) ''very distracted''
   \<and> filter_enabled (generateMockProfile distracted_answers)
   \<and> filter_sensitivity (generateMockProfile distracted_answers) = ''high''"
  using C10_distraction_tiers [of distracted_answers]
  by (simp add: distracted_answers_def answer_includes_eval lower_char_eval Let_def)

section \<open>Properties of the paragraph chunker\<close>

lemma slice_from:
  assumes "0 < m"
  shows "slice xs (int i) (int i + m) = take (nat m) (drop i xs)"
proof (cases "i \<le> length xs")
  case True
  with assms show ?thesis
    by (auto simp: slice_def Let_def min_def)
next
  case False
  with assms show ?thesis
    by (auto simp: slice_def Let_def min_def)
qed

lemma chunk_loop_groups:
  assumes m: "1 \<le> m"
  shows "\<exists>gs. chunk_loop s m (int i) acc = Some (acc @ map (\<lambda>g. chunk_html (join '' '' g)) gs)
            \<and> concat gs = drop i s
            \<and> length gs = (length s - i + nat m - 1) div nat m
            \<and> (\<forall>g \<in> set gs. g \<noteq> [] \<and> length g \<le> nat m)"
proof (induction "length s - i" arbitrary: i acc rule: less_induct)
  case less
  show ?case
  proof (cases "i < length s")
    case False
    then have "chunk_loop s m (int i) acc = Some acc"
      by (subst chunk_loop.simps) simp
    moreover from False m have "(length s - i + nat m - 1) div nat m = 0"
      by simp
    ultimately show ?thesis
      using False by (intro exI [of _ "[]"]) simp
  next
    case True
    let ?g = "take (nat m) (drop i s)"
    let ?acc = "acc @ [chunk_html (join '' '' ?g)]"
    from m have step: "int i + m = int (i + nat m)"
      by simp
    from True m have "length s - (i + nat m) < length s - i"
      by linarith
    from less [OF this, of ?acc] obtain gs where
      gs: "chunk_loop s m (int (i + nat m)) ?acc = Some (?acc @ map (\<lambda>g. chunk_html (join '' '' g)) gs)"
        "concat gs = drop (i + nat m) s"
        "length gs = (length s - (i + nat m) + nat m - 1) div nat m"
        "\<forall>g \<in> set gs. g \<noteq> [] \<and> length g \<le> nat m"
      by blast
    have "chunk_loop s m (int i) acc = chunk_loop s m (int i + m) ?acc"
      using True m by (subst chunk_loop.simps) (simp add: slice_from)
    also have "\<dots> = chunk_loop s m (int (i + nat m)) ?acc"
      by (simp only: step)
    also have "\<dots> = Some (acc @ map (\<lambda>g. chunk_html (join '' '' g)) (?g # gs))"
      by (simp only: gs(1)) simp
    finally have 1: "chunk_loop s m (int i) acc
        = Some (acc @ map (\<lambda>g. chunk_html (join '' '' g)) (?g # gs))" .
    have 2: "concat (?g # gs) = drop i s"
      using gs(2) by (simp add: add.commute [of i] flip: drop_drop)
    have 3: "length (?g # gs) = (length s - i + nat m - 1) div nat m"
    proof -
      from m have pos: "0 < nat m" by simp
      from True pos have "nat m \<le> length s - i + nat m - 1"
        by linarith
      with pos have "(length s - i + nat m - 1) div nat m
          = Suc ((length s - i + nat m - 1 - nat m) div nat m)"
        by (rule le_div_geq)
      moreover have "(length s - i + nat m - 1 - nat m) div nat m
          = (length s - (i + nat m) + nat m - 1) div nat m"
      proof (cases "i + nat m \<le> length s")
        case True
        then have "length s - i + nat m - 1 - nat m = length s - (i + nat m) + nat m - 1"
          using pos by linarith
        then show ?thesis by simp
      next
        case False
        with pos have "length s - i + nat m - 1 - nat m < nat m"
          and "length s - (i + nat m) + nat m - 1 < nat m"
          by linarith+
        then show ?thesis by simp
      qed
      ultimately show ?thesis using gs(3) by simp
    qed
    have 4: "\<forall>g \<in> set (?g # gs). g \<noteq> [] \<and> length g \<le> nat m"
      using gs(4) True m by auto
    from 1 2 3 4 show ?thesis by blast
  qed
qed

lemma chunk_loop_diverges_aux:
  assumes "chunk_loop s m i acc = Some r"
  shows "\<not> (m \<le> 0 \<and> i < int (length s))"
proof (rule chunk_loop.raw_induct
        [where P = "\<lambda>s m i acc r. \<not> (m \<le> 0 \<and> i < int (length s))", OF _ assms])
  fix f :: "string list \<Rightarrow> int \<Rightarrow> int \<Rightarrow> string list \<Rightarrow> string list option"
    and s m i acc r
  assume IH: "\<And>s m i acc r. f s m i acc = Some r \<Longrightarrow> \<not> (m \<le> 0 \<and> i < int (length s))"
    and body: "(if i < int (length s)
                then f s m (i + m) (acc @ [chunk_html (join '' '' (slice s i (i + m)))])
                else Some acc) = Some r"
  show "\<not> (m \<le> 0 \<and> i < int (length s))"
  proof
    assume a: "m \<le> 0 \<and> i < int (length s)"
    with body have "f s m (i + m) (acc @ [chunk_html (join '' '' (slice s i (i + m)))]) = Some r"
      by simp
    from IH [OF this] a show False
      by linarith
  qed
qed

lemma chunk_loop_diverges:
  "m \<le> 0 \<Longrightarrow> i < int (length s) \<Longrightarrow> chunk_loop s m i acc = None"
  using chunk_loop_diverges_aux [of s m i acc] by (cases "chunk_loop s m i acc") auto

lemma chunk_paragraph_split:
  assumes m: "1 \<le> m" and n: "int (length (splitIntoSentences p)) > m"
  shows "\<exists>gs. chunk_paragraph m p st
              = Some (fst st @ [Replaced (join [CHR 0x0A] (map (\<lambda>g. chunk_html (join '' '' g)) gs))],
                      Suc (snd st))
            \<and> concat gs = splitIntoSentences p
            \<and> length gs = (length (splitIntoSentences p) + nat m - 1) div nat m
            \<and> (\<forall>g \<in> set gs. g \<noteq> [] \<and> length g \<le> nat m)"
  using chunk_loop_groups [OF m, of "splitIntoSentences p" 0 "[]"] n
  by (auto simp: chunk_paragraph_def Let_def)

lemma chunk_paragraph_kept:
  assumes "int (length (splitIntoSentences p)) \<le> m"
  shows "chunk_paragraph m p st = Some (fst st @ [Kept p], snd st)"
  using assms by (simp add: chunk_paragraph_def Let_def)

lemma chunk_paragraph_diverges:
  assumes "m \<le> 0"
  shows "chunk_paragraph m p st = None"
proof -
  have "splitIntoSentences p \<noteq> []"
    by (simp add: splitIntoSentences_def split: list.splits)
  then have pos: "0 < int (length (splitIntoSentences p))"
    by simp
  with assms have "chunk_loop (splitIntoSentences p) m 0 [] = None"
    by (rule chunk_loop_diverges)
  moreover from pos assms have "m < int (length (splitIntoSentences p))"
    by linarith
  ultimately show ?thesis
    by (simp add: chunk_paragraph_def Let_def)
qed

lemma forEach_paragraph_diverges:
  "m \<le> 0 \<Longrightarrow> ps \<noteq> [] \<Longrightarrow> forEach_paragraph m ps st = None"
  by (cases ps) (simp_all add: chunk_paragraph_diverges)



lemma forEach_paragraph_units:
  assumes step: "\<And>p st. \<exists>u. chunk_paragraph m p st
                    = Some (fst st @ [u], snd st + (if split p then 1 else 0)) \<and> ok p u"
  shows "\<exists>units. forEach_paragraph m ps st
            = Some (fst st @ units, snd st + length (filter split ps))
          \<and> list_all2 ok ps units"
proof (induction ps arbitrary: st)
  case Nil
  show ?case by simp
next
  case (Cons p ps)
  from step [of p st] obtain u where
    u: "chunk_paragraph m p st = Some (fst st @ [u], snd st + (if split p then 1 else 0))"
    and uok: "ok p u"
    by blast
  from Cons.IH [of "(fst st @ [u], snd st + (if split p then 1 else 0))"] obtain units where
    r: "forEach_paragraph m ps (fst st @ [u], snd st + (if split p then 1 else 0))
          = Some (fst st @ [u] @ units,
                  snd st + (if split p then 1 else 0) + length (filter split ps))"
    and ok: "list_all2 ok ps units"
    by auto
  have "forEach_paragraph m (p # ps) st
      = Some (fst st @ (u # units), snd st + length (filter split (p # ps)))"
    using u r by simp
  moreover have "list_all2 ok (p # ps) (u # units)"
    using uok ok by simp
  ultimately show ?case by blast
qed

lemma chunk_paragraph_step:
  assumes m: "1 \<le> m"
  shows "\<exists>u. chunk_paragraph m p st
            = Some (fst st @ [u],
                    snd st + (if int (length (splitIntoSentences p)) > m then 1 else 0))
          \<and> (if int (length (splitIntoSentences p)) \<le> m then u = Kept p
               else \<exists>gs. u = Replaced (join [CHR 0x0A] (map (\<lambda>g. chunk_html (join '' '' g)) gs))
                      \<and> concat gs = splitIntoSentences p
                      \<and> length gs = (length (splitIntoSentences p) + nat m - 1) div nat m
                      \<and> (\<forall>g \<in> set gs. g \<noteq> [] \<and> length g \<le> nat m))"
proof (cases "int (length (splitIntoSentences p)) \<le> m")
  case True
  with chunk_paragraph_kept [OF True, of st] show ?thesis
    by simp
next
  case False
  then have gt: "int (length (splitIntoSentences p)) > m" by simp
  from chunk_paragraph_split [OF m gt, of st] obtain gs where
    "chunk_paragraph m p st
       = Some (fst st @ [Replaced (join [CHR 0x0A] (map (\<lambda>g. chunk_html (join '' '' g)) gs))],
               Suc (snd st))"
    "concat gs = splitIntoSentences p"
    "length gs = (length (splitIntoSentences p) + nat m - 1) div nat m"
    "\<forall>g \<in> set gs. g \<noteq> [] \<and> length g \<le> nat m"
    by blast
  with False gt show ?thesis
    by (intro exI [of _ "Replaced (join [CHR 0x0A] (map (\<lambda>g. chunk_html (join '' '' g)) gs))"])
       (simp, blast)
qed



lemma chunkParagraphs_diverges:
  assumes "parse jd content = Inr ps" and "ps \<noteq> []" and "m \<le> 0"
  shows "chunkParagraphs jd content m = None"
  using assms by (simp add: chunkParagraphs_def forEach_paragraph_diverges)

text \<open>
  C4: the claim asks that \<open>chunkParagraphs\<close> returns for \<open>maxSentences \<le> 0\<close>, clamped or
  rejected. The code has no guard: every paragraph has at least one sentence, so the \<open>for\<close>
  loop is entered with a step \<open>i += maxSentences\<close> that never moves \<open>i\<close> past the number of
  sentences, and the call never returns. Here on a document with the one paragraph
  \<open>Hello.\<close> and \<open>maxSentences = 0\<close>.
\<close>

theorem C4_chunker_never_returns_at_zero:
  "chunkParagraphs (paragraphs_dom [''Hello.'']) ''<p>Hello.</p>'' 0 = None"
  by (rule chunkParagraphs_diverges [where ps = "[''Hello.'']"]) (simp_all add: paragraphs_dom_def)

lemma chunker_never_returns_when_negative:
  "chunkParagraphs (paragraphs_dom [''Hello.'']) ''<p>Hello.</p>'' (- 2) = None"
  by (rule chunkParagraphs_diverges [where ps = "[''Hello.'']"]) (simp_all add: paragraphs_dom_def)

subsection \<open>Splitting the chunks again\<close>


lemma startsWith_take: "startsWith s w = (take (length w) s = w)"
  by (induction s w rule: startsWith.induct) auto










lemma takeWhile_run:
  assumes "\<forall>x \<in> set xs. P x" and "ys = [] \<or> \<not> P (hd ys)"
  shows "takeWhile P (xs @ ys) = xs" and "dropWhile P (xs @ ys) = ys"
proof -
  from assms(2) have "takeWhile P ys = []" and "dropWhile P ys = ys"
    by (cases ys; simp)+
  with assms(1) show "takeWhile P (xs @ ys) = xs" and "dropWhile P (xs @ ys) = ys"
    by (simp_all add: takeWhile_append2 dropWhile_append2)
qed


















lemma plain_iff: "plain s = (\<forall>c \<in> set s. c \<notin> {CHR ''<'', CHR ''&'', CHR 0x0D, CHR 0x00})"
  by (simp add: plain_def list_all_iff)



lemma chunk_html_open: "chunk_html t = chunk_open @ t @ ''</p>''"
  by (simp add: chunk_html_def chunk_open_def)

lemma startsWith_append: "startsWith (w @ s) w"
  by (simp add: startsWith_take)

lemma read_chunks_skip: "read_chunks (CHR 0x0A # s) = read_chunks s"
  by (simp add: chunk_open_def)

lemma read_chunks_open:
  assumes "s \<noteq> []" and "startsWith s chunk_open"
  shows "read_chunks s
      = takeWhile (\<lambda>x. x \<noteq> CHR ''<'') (drop (length chunk_open) s)
        # read_chunks (drop (length ''</p>'')
            (dropWhile (\<lambda>x. x \<noteq> CHR ''<'') (drop (length chunk_open) s)))"
  using assms by (cases s) simp_all

lemma read_chunks_chunk:
  assumes "CHR ''<'' \<notin> set t"
  shows "read_chunks (chunk_html t @ rest) = t # read_chunks rest"
proof -
  let ?s = "chunk_open @ t @ ''</p>'' @ rest"
  have ne: "?s \<noteq> []"
    by simp
  have sw: "startsWith ?s chunk_open"
    by (rule startsWith_append)
  from assms have all: "\<forall>x \<in> set t. x \<noteq> CHR ''<''"
    by auto
  have nxt: "''</p>'' @ rest = [] \<or> \<not> hd (''</p>'' @ rest) \<noteq> CHR ''<''"
    by simp
  note tw = takeWhile_run(1) [OF all nxt, simplified]
    and dw = takeWhile_run(2) [OF all nxt, simplified]
  have "read_chunks ?s = t # read_chunks rest"
    by (subst read_chunks_open [OF ne sw]) (simp add: tw dw)
  then show ?thesis
    by (simp add: chunk_html_open)
qed

lemma read_chunks_back:
  assumes "list_all plain ts"
  shows "read_chunks (join [CHR 0x0A] (map chunk_html ts)) = ts"
  using assms
proof (induction ts)
  case Nil
  show ?case by simp
next
  case (Cons t ts)
  then have lt: "CHR ''<'' \<notin> set t"
    by (auto simp: plain_iff)
  show ?case
  proof (cases ts)
    case Nil
    with read_chunks_chunk [OF lt, of "[]"] show ?thesis by simp
  next
    case (Cons u us)
    have "join [CHR 0x0A] (map chunk_html (t # u # us))
        = chunk_html t @ CHR 0x0A # join [CHR 0x0A] (map chunk_html (u # us))"
      by simp
    then have "read_chunks (join [CHR 0x0A] (map chunk_html (t # u # us)))
        = t # read_chunks (join [CHR 0x0A] (map chunk_html (u # us)))"
      by (simp only: read_chunks_chunk [OF lt] read_chunks_skip)
    with Cons Cons.IH Cons.prems show ?thesis by simp
  qed
qed

subsection \<open>Conservation of sentences\<close>








lemma seven_sentences_split:
  "splitIntoSentences seven_sentences
     = [''One.'', ''Two!'', ''Three?'', ''Four.'', ''Five.'', ''Six.'', ''Seven.'']"
  by (simp add: seven_sentences_def splitIntoSentences_def is_terminator_def trim_def
      whitespace_def Let_def strip.simps)


text \<open>Scenario 2 of the specification: seven sentences at a limit of three, and a short paragraph.\<close>

lemma seven_sentences_chunked:
  "chunkParagraphs (paragraphs_dom [seven_sentences, ''Short one. Two.''])
      (''<p>'' @ seven_sentences @ ''</p><p>Short one. Two.</p>'') 3
    = Some (Inr \<lparr>cr_content = chunk_html ''One. Two! Three?'' @ [CHR 0x0A]
                      @ chunk_html ''Four. Five. Six.'' @ [CHR 0x0A] @ chunk_html ''Seven.''
                      @ ''<p>Short one. Two.</p>'',
                chunksCreated = 1\<rparr>)"
proof -
  let ?jd = "paragraphs_dom [seven_sentences, ''Short one. Two.'']"
  let ?h = "join [CHR 0x0A] [chunk_html ''One. Two! Three?'', chunk_html ''Four. Five. Six.'',
                             chunk_html ''Seven.'']"
  let ?out = "chunk_html ''One. Two! Three?'' @ [CHR 0x0A]
                @ chunk_html ''Four. Five. Six.'' @ [CHR 0x0A] @ chunk_html ''Seven.''
                @ ''<p>Short one. Two.</p>''"
  have short: "splitIntoSentences ''Short one. Two.'' = [''Short one.'', ''Two.'']"
    by (simp add: splitIntoSentences_def is_terminator_def trim_def whitespace_def Let_def
        strip.simps)
  have loop: "chunk_loop [''One.'', ''Two!'', ''Three?'', ''Four.'', ''Five.'', ''Six.'', ''Seven.''] 3 0 []
      = Some [chunk_html ''One. Two! Three?'', chunk_html ''Four. Five. Six.'',
              chunk_html ''Seven.'']"
    by (simp add: chunk_loop.simps slice_def)
  have pass: "forEach_paragraph 3 [seven_sentences, ''Short one. Two.''] ([], 0)
    = Some ([Replaced ?h, Kept ''Short one. Two.''], 1)"
    by (simp add: chunk_paragraph_def seven_sentences_split short loop)
  have "read_chunks ?h = [''One. Two! Three?'', ''Four. Five. Six.'', ''Seven.'']"
    using read_chunks_back [of "[''One. Two! Three?'', ''Four. Five. Six.'', ''Seven.'']"]
    by (simp add: plain_def del: join.simps)
  then have "unit_html (Replaced ?h)
      = join [CHR 0x0A] (map (\<lambda>t. chunk_html (escape_text t))
                           [''One. Two! Three?'', ''Four. Five. Six.'', ''Seven.''])"
    by (simp only: unit_html.simps)
  also have "\<dots> = chunk_html ''One. Two! Three?'' @ [CHR 0x0A]
                      @ chunk_html ''Four. Five. Six.'' @ [CHR 0x0A] @ chunk_html ''Seven.''"
    by simp
  finally have ser: "serialize ?jd [Replaced ?h, Kept ''Short one. Two.''] = ?out"
    by (simp add: paragraphs_dom_def del: unit_html.simps(2) join.simps)
  have ne: "?out \<noteq> []"
    by (simp add: chunk_html_def)
  have doc: "parse ?jd c = Inr [seven_sentences, ''Short one. Two.'']" for c
    by (simp add: paragraphs_dom_def)
  have "chunkParagraphs ?jd c 3
      = Some (Inr \<lparr>cr_content = (if ?out = [] then c else ?out), chunksCreated = 1\<rparr>)" for c
    by (simp only: chunkParagraphs_def doc pass ser sum.case option.case prod.case)
  with ne show ?thesis
    by (simp only: if_False)
qed

section \<open>Properties of the orchestrator\<close>

lemma chunkParagraphs_returns:
  assumes m: "1 \<le> m"
  shows "\<exists>r. chunkParagraphs jd content m = Some r"
proof (cases "parse jd content")
  case (Inl e)
  then show ?thesis
    by (simp add: chunkParagraphs_def)
next
  case (Inr ps)
  have step: "\<exists>u. chunk_paragraph m p st
                = Some (fst st @ [u],
                        snd st + (if int (length (splitIntoSentences p)) > m then 1 else 0))
              \<and> True" for p st
    using chunk_paragraph_step [OF m, of p st] by blast
  from forEach_paragraph_units
         [where ok = "\<lambda>p u. True" and split = "\<lambda>p. int (length (splitIntoSentences p)) > m",
          OF step, of ps "([], 0)"]
  obtain units n where "forEach_paragraph m ps ([], 0) = Some (units, n)"
    by auto
  with Inr show ?thesis
    by (simp add: chunkParagraphs_def)
qed

lemma transform_steps_returns:
  assumes "chunking_strategy profile = ''sentence_limit'' \<Longrightarrow> 1 \<le> chunking_maxLength profile"
  shows "\<exists>r. transform_steps jd content profile = Some r"
proof (cases "chunking_strategy profile = ''sentence_limit''")
  case False
  then show ?thesis
    by (simp add: transform_steps_def Let_def)
next
  case True
  from chunkParagraphs_returns [OF assms [OF True]] obtain r where
    "chunkParagraphs jd
       (fst (if simplificationLevel profile \<noteq> ''none''
             then simplifyVocabulary content (simplificationLevel profile)
             else (content, [])))
       (chunking_maxLength profile) = Some r"
    by blast
  with True show ?thesis
    by (cases r) (simp_all add: transform_steps_def Let_def)
qed

text \<open>
  With a chunking limit of at least one, \<open>transformText\<close> returns: a result tagged \<open>error\<close>
  with the content it was given when a step throws, and a result tagged \<open>success\<close> with
  the content and the log of the steps otherwise.
\<close>

lemma transformText_returns:
  assumes "chunking_strategy profile = ''sentence_limit'' \<Longrightarrow> 1 \<le> chunking_maxLength profile"
  shows "(\<exists>e. transform_steps jd content profile = Some (Inl e)
            \<and> transformText jd content profile
                = Some \<lparr>tr_status = ''error'', tr_error = Some (message e),
                        transformedContent = content, tr_metadata = None\<rparr>)
       \<or> (\<exists>c l. transform_steps jd content profile = Some (Inr (c, l))
            \<and> transformText jd content profile
                = Some \<lparr>tr_status = ''success'', tr_error = None, transformedContent = c,
                        tr_metadata =
                          Some \<lparr>originalLength = js_length content,
                                transformedLength = js_length c,
                                transformations = l,
                                md_chunkingMaxLength = chunking_maxLength profile,
                                md_vocabularyLevel = simplificationLevel profile,
                                md_analogiesEnabled = useAnalogies profile\<rparr>\<rparr>)"
proof -
  from transform_steps_returns [OF assms] obtain r where
    r: "transform_steps jd content profile = Some r"
    by blast
  show ?thesis
  proof (cases r)
    case (Inl e)
    with r show ?thesis
      by (simp add: transformText_def)
  next
    case (Inr cl)
    with r show ?thesis
      by (cases cl) (simp add: transformText_def)
  qed
qed

lemma transform_steps_throws:
  assumes "chunking_strategy profile = ''sentence_limit''"
    and "parse jd (if simplificationLevel profile \<noteq> ''none''
                   then fst (simplifyVocabulary content (simplificationLevel profile))
                   else content) = Inl e"
  shows "transform_steps jd content profile = Some (Inl e)"
  using assms by (simp add: transform_steps_def chunkParagraphs_def Let_def split: if_splits)

lemma transform_steps_diverges:
  assumes "chunking_strategy profile = ''sentence_limit''"
    and "chunking_maxLength profile \<le> 0"
    and "parse jd (if simplificationLevel profile \<noteq> ''none''
                   then fst (simplifyVocabulary content (simplificationLevel profile))
                   else content) = Inr ps"
    and "ps \<noteq> []"
  shows "transform_steps jd content profile = None"
proof -
  let ?c = "if simplificationLevel profile \<noteq> ''none''
            then fst (simplifyVocabulary content (simplificationLevel profile)) else content"
  from assms(3,4,2) have "chunkParagraphs jd ?c (chunking_maxLength profile) = None"
    by (rule chunkParagraphs_diverges)
  with assms(1) show ?thesis
    by (simp add: transform_steps_def Let_def split: if_splits)
qed

lemma transformText_diverges:
  assumes "transform_steps jd content profile = None"
  shows "transformText jd content profile = None"
  using assms by (simp add: transformText_def)

text \<open>
  C9: the claim asks that a failure inside the pipeline of \<open>transformText\<close> gives a result
  tagged \<open>error\<close> that carries the content as it was given. A chunking limit of zero is
  such a failure, and it gives no result at all: the chunker is called inside the \<open>try\<close>
  with the limit as the profile has it, its loop never ends, nothing is thrown and so
  nothing is caught. Here on a document with the one paragraph \<open>Hello.\<close> and the default
  profile with \<open>maxLength = 0\<close>.
\<close>

theorem C9_no_error_result_at_zero:
  "transformText (paragraphs_dom [''Hello.'']) ''<p>Hello.</p>''
     (default_profile\<lparr>chunking_maxLength := 0\<rparr>) = None"
proof (rule transformText_diverges, rule transform_steps_diverges [where ps = "[''Hello.'']"])
  show "chunking_strategy (default_profile\<lparr>chunking_maxLength := 0\<rparr>) = ''sentence_limit''"
    by (simp add: default_profile_def)
  show "chunking_maxLength (default_profile\<lparr>chunking_maxLength := 0\<rparr>) \<le> 0"
    by simp
  show "parse (paragraphs_dom [''Hello.''])
          (if simplificationLevel (default_profile\<lparr>chunking_maxLength := 0\<rparr>) \<noteq> ''none''
           then fst (simplifyVocabulary ''<p>Hello.</p>''
                  (simplificationLevel (default_profile\<lparr>chunking_maxLength := 0\<rparr>)))
           else ''<p>Hello.</p>'') = Inr [''Hello.'']"
    by (simp only: paragraphs_dom_def jsdom.select_convs)
  show "[''Hello.''] \<noteq> []"
    by simp
qed

text \<open>The same profile with the limit it has by default: the paragraph is kept.\<close>

lemma hello_at_default:
  "\<exists>l. transformText (paragraphs_dom [''Hello.'']) ''<p>Hello.</p>'' default_profile
     = Some \<lparr>tr_status = ''success'', tr_error = None,
             transformedContent = ''<p>Hello.</p>'',
             tr_metadata = Some \<lparr>originalLength = 13, transformedLength = 13,
                                  transformations = l, md_chunkingMaxLength = 4,
                                  md_vocabularyLevel = ''intermediate'',
                                  md_analogiesEnabled = False\<rparr>\<rparr>"
proof -
  have s: "splitIntoSentences ''Hello.'' = [''Hello.'']"
    by (simp add: splitIntoSentences_def is_terminator_def trim_def whitespace_def Let_def
        strip.simps)
  have "chunkParagraphs (paragraphs_dom [''Hello.'']) c 4
          = Some (Inr \<lparr>cr_content = ''<p>Hello.</p>'', chunksCreated = 0\<rparr>)" for c
    by (simp add: chunkParagraphs_def paragraphs_dom_def chunk_paragraph_def s)
  then show ?thesis
    by (simp add: transformText_def transform_steps_def default_profile_def Let_def js_length_def)
qed

end
